theory Spec2Isabelle
  imports Main "HOL-Library.Word" "HOL-Library.Signed_Division" "HOL-Library.AList"
begin

unbundle bit_operations_syntax

section \<open>Values of the Go program\<close>

text \<open>
  The program is \<^verbatim>\<open>src/main.go\<close>: two functions, \<^verbatim>\<open>createHeaders\<close> and
  \<^verbatim>\<open>callSwitchBotAPI\<close>, and \<^verbatim>\<open>main\<close>. A Go \<^verbatim>\<open>string\<close> and a \<^verbatim>\<open>[]byte\<close> are
  sequences of bytes, here \<^typ>\<open>string\<close> (a \<^typ>\<open>char\<close> is one byte). A
  \<^verbatim>\<open>map[string]string\<close> is an association list with distinct keys, written with
  \<^const>\<open>AList.update\<close> and read with \<^const>\<open>map_of\<close>.
\<close>

type_synonym bytes = string
type_synonym header_map = "(string \<times> string) list"

text \<open>
  A \<^verbatim>\<open>float64\<close> that \<^verbatim>\<open>encoding/json\<close> can deliver is finite: a sign bit and the
  magnitude \<open>mantissa * 2 ^ exponent\<close>.
\<close>

datatype float64 = Float64 (sign_bit: bool) (mantissa: nat) (exponent: int)

text \<open>
  What \<^verbatim>\<open>json.Unmarshal\<close> stores in an \<^verbatim>\<open>interface{}\<close>: \<^verbatim>\<open>nil\<close>, \<^verbatim>\<open>bool\<close>,
  \<^verbatim>\<open>float64\<close>, \<^verbatim>\<open>string\<close>, \<^verbatim>\<open>[]interface{}\<close> or \<^verbatim>\<open>map[string]interface{}\<close>.
\<close>

datatype json =
    JNull
  | JBool bool
  | JNumber float64
  | JString string
  | JArray "json list"
  | JObject "(string \<times> json) list"

text \<open>An \<^verbatim>\<open>*http.Request\<close>: the method, the URL and the header entries added to it.\<close>

record request =
  req_method :: string
  req_url :: string
  req_header :: "(string \<times> string) list"

text \<open>
  An \<^verbatim>\<open>*http.Response\<close>: the status code and what \<^verbatim>\<open>ioutil.ReadAll(resp.Body)\<close>
  gives, the read error (\<open>Inl\<close>) or the complete body (\<open>Inr\<close>).
\<close>

record response =
  StatusCode :: int
  Body_ReadAll :: "string + bytes"

text \<open>
  The libraries and the outside world the program calls, as parameters: the environment,
  the \<open>k\<close>-th UUID and the \<open>k\<close>-th clock reading (an \<^verbatim>\<open>int64\<close> of nanoseconds), the error of
  \<^verbatim>\<open>http.NewRequest\<close> for a method and URL (\<open>None\<close> is \<^verbatim>\<open>nil\<close>), the answer of the
  \<open>k\<close>-th \<^verbatim>\<open>client.Do\<close>, and \<^verbatim>\<open>json.Unmarshal\<close> into a \<^verbatim>\<open>map[string]interface{}\<close>.
  \<^verbatim>\<open>uuid.New\<close> panics only when the random source of the system fails; here it always
  delivers.
\<close>

record platform =
  environ :: "string \<rightharpoonup> string"
  uuid_New :: "nat \<Rightarrow> string"
  time_Now_UnixNano :: "nat \<Rightarrow> 64 word"
  http_NewRequest :: "string \<Rightarrow> string \<Rightarrow> string option"
  client_Do :: "nat \<Rightarrow> request \<Rightarrow> string + response"
  json_Unmarshal :: "bytes \<Rightarrow> string + (string \<times> json) list"

text \<open>
  What a run has done so far: the bytes written to standard output, the requests handed to
  \<^verbatim>\<open>client.Do\<close> in order, and how many UUIDs and clock readings were drawn.
\<close>

record world =
  stdout :: string
  sent :: "request list"
  uuid_calls :: nat
  clock_calls :: nat

text \<open>
  How \<^verbatim>\<open>main\<close> ends: it returns, or a failed type assertion panics. The Go runtime
  then writes \<^verbatim>\<open>panic: \<close> and the message kept here to standard error, and the
  process exits with status 2.
\<close>

datatype exit = Returned | Panicked string

section \<open>Formatting\<close>

text \<open>The verb \<^verbatim>\<open>%d\<close>: decimal digits, with a minus sign for a negative number.\<close>

definition digit :: "nat \<Rightarrow> char" where
  "digit d = ''0123456789'' ! d"

fun dec_nat :: "nat \<Rightarrow> string" where
  "dec_nat n = (if n < 10 then [digit n] else dec_nat (n div 10) @ [digit (n mod 10)])"

declare dec_nat.simps [simp del]

definition Sprintf_d :: "int \<Rightarrow> string" where
  "Sprintf_d i = (if i < 0 then ''-'' @ dec_nat (nat (- i)) else dec_nat (nat i))"

text \<open>
  The verb \<^verbatim>\<open>%.2f\<close>: the exact value rounded to two decimals, a tie going to the even
  neighbour, with the sign of the \<^verbatim>\<open>float64\<close>.
\<close>

definition round_half_even :: "nat \<Rightarrow> nat \<Rightarrow> nat" where
  "round_half_even a d =
     (let q = a div d; r = a mod d
      in if 2 * r > d then q + 1
         else if 2 * r < d then q
         else if even q then q else q + 1)"

definition hundredths :: "float64 \<Rightarrow> nat" where
  "hundredths f =
     (if 0 \<le> exponent f then mantissa f * 2 ^ nat (exponent f) * 100
      else round_half_even (mantissa f * 100) (2 ^ nat (- exponent f)))"

definition Sprintf_2f :: "float64 \<Rightarrow> string" where
  "Sprintf_2f f =
     (let n = hundredths f
      in (if sign_bit f then ''-'' else '''') @ dec_nat (n div 100) @ ''.''
         @ [digit (n mod 100 div 10), digit (n mod 10)])"

text \<open>\<^verbatim>\<open>base64.StdEncoding.EncodeToString\<close>: the standard alphabet, padded with \<open>=\<close>.\<close>

definition encodeStd :: "nat \<Rightarrow> char" where
  "encodeStd i =
     ''ABCDEFGHIJKLMNOPQRSTUVWXYZabcdefghijklmnopqrstuvwxyz0123456789+/'' ! i"

fun EncodeToString :: "bytes \<Rightarrow> string" where
  "EncodeToString [] = []"
| "EncodeToString [a] =
     (let x = (of_char a :: nat)
      in [encodeStd (x div 4), encodeStd (x mod 4 * 16), CHR ''='', CHR ''=''])"
| "EncodeToString [a, b] =
     (let x = (of_char a :: nat); y = (of_char b :: nat)
      in [encodeStd (x div 4), encodeStd (x mod 4 * 16 + y div 16),
          encodeStd (y mod 16 * 4), CHR ''=''])"
| "EncodeToString (a # b # c # rest) =
     (let x = (of_char a :: nat); y = (of_char b :: nat); z = (of_char c :: nat)
      in [encodeStd (x div 4), encodeStd (x mod 4 * 16 + y div 16),
          encodeStd (y mod 16 * 4 + z div 64), encodeStd (z mod 64)]
         @ EncodeToString rest)"

section \<open>The keyed hash\<close>

text \<open>
  \<^verbatim>\<open>crypto/sha256\<close> and \<^verbatim>\<open>crypto/hmac\<close>, which \<^verbatim>\<open>createHeaders\<close> calls at lines 27 to
  29: SHA-256 over bytes with 32-bit words, and the HMAC construction with its 64-byte
  block (a longer key is hashed first; \<open>0x36\<close> and \<open>0x5c\<close> are the inner and outer
  pads).
\<close>

text \<open>
  The round constants are the first 32 bits of the fractional parts of the cube roots of
  the first 64 primes, the initial hash value those of the square roots of the first 8:
  \<open>floor_root k n b 0\<close> is the integer \<open>k\<close>-th root of \<open>n\<close>, found bit by bit
  from bit \<open>b - 1\<close> down.
\<close>

definition primes64 :: "nat list" where
  "primes64 =
     [2, 3, 5, 7, 11, 13, 17, 19, 23, 29, 31, 37, 41, 43, 47, 53, 59, 61, 67, 71, 73, 79, 83,
      89, 97, 101, 103, 107, 109, 113, 127, 131, 137, 139, 149, 151, 157, 163, 167, 173, 179,
      181, 191, 193, 197, 199, 211, 223, 227, 229, 233, 239, 241, 251, 257, 263, 269, 271, 277,
      281, 283, 293, 307, 311]"

fun floor_root :: "nat \<Rightarrow> nat \<Rightarrow> nat \<Rightarrow> nat \<Rightarrow> nat" where
  "floor_root k n 0 r = r"
| "floor_root k n (Suc b) r =
     floor_root k n b (if (r + 2 ^ b) ^ k \<le> n then r + 2 ^ b else r)"

definition fraction_bits :: "nat \<Rightarrow> nat \<Rightarrow> 32 word" where
  "fraction_bits k p = of_nat (floor_root k (p * 2 ^ (32 * k)) 36 0)"

definition K256 :: "32 word list" where
  "K256 = map (fraction_bits 3) primes64"

definition init256 :: "32 word list" where
  "init256 = map (fraction_bits 2) (take 8 primes64)"

definition be32 :: "bytes \<Rightarrow> 32 word" where
  "be32 bs = foldl (\<lambda>acc c. push_bit 8 acc OR of_nat (of_char c)) 0 (take 4 bs)"

fun words_of :: "nat \<Rightarrow> bytes \<Rightarrow> 32 word list" where
  "words_of 0 bs = []"
| "words_of (Suc n) bs = be32 bs # words_of n (drop 4 bs)"

definition word_bytes :: "nat \<Rightarrow> 'a::len word \<Rightarrow> bytes" where
  "word_bytes n w = map (\<lambda>i. char_of (unat (drop_bit (8 * (n - 1 - i)) w AND 0xFF))) [0..<n]"

definition sha_pad :: "bytes \<Rightarrow> bytes" where
  "sha_pad msg =
     (let n = length msg
      in msg @ [CHR 0x80] @ replicate ((119 - n mod 64) mod 64) (CHR 0x00)
         @ word_bytes 8 (8 * of_nat n :: 64 word))"

definition extend_schedule :: "32 word list \<Rightarrow> 32 word list" where
  "extend_schedule ws =
     (let n = length ws;
          a = ws ! (n - 15); b = ws ! (n - 2);
          s0 = word_rotr 7 a XOR word_rotr 18 a XOR drop_bit 3 a;
          s1 = word_rotr 17 b XOR word_rotr 19 b XOR drop_bit 10 b
      in ws @ [ws ! (n - 16) + s0 + ws ! (n - 7) + s1])"

definition sha_round :: "32 word list \<Rightarrow> 32 word \<times> 32 word \<Rightarrow> 32 word list" where
  "sha_round st kw =
     (case st of
        [a, b, c, d, e, f, g, h] \<Rightarrow>
          (let S1 = word_rotr 6 e XOR word_rotr 11 e XOR word_rotr 25 e;
               ch = (e AND f) XOR (NOT e AND g);
               t1 = h + S1 + ch + fst kw + snd kw;
               S0 = word_rotr 2 a XOR word_rotr 13 a XOR word_rotr 22 a;
               mj = (a AND b) XOR (a AND c) XOR (b AND c);
               t2 = S0 + mj
           in [t1 + t2, a, b, c, d + t1, e, f, g])
      | _ \<Rightarrow> st)"

definition sha_block :: "32 word list \<Rightarrow> bytes \<Rightarrow> 32 word list" where
  "sha_block st blk =
     (let ws = (extend_schedule ^^ 48) (words_of 16 blk)
      in map2 (+) st (foldl sha_round st (zip K256 ws)))"

fun sha_blocks :: "nat \<Rightarrow> 32 word list \<Rightarrow> bytes \<Rightarrow> 32 word list" where
  "sha_blocks 0 st bs = st"
| "sha_blocks (Suc n) st bs = sha_blocks n (sha_block st (take 64 bs)) (drop 64 bs)"

definition sha256_Sum256 :: "bytes \<Rightarrow> bytes" where
  "sha256_Sum256 msg =
     (let padded = sha_pad msg
      in concat (map (\<lambda>w. word_bytes 4 w)
                     (sha_blocks (length padded div 64) init256 padded)))"

definition xor_byte :: "nat \<Rightarrow> char \<Rightarrow> char" where
  "xor_byte k c = char_of (unat ((of_nat (of_char c) :: 8 word) XOR of_nat k))"

definition hmac_sha256 :: "bytes \<Rightarrow> bytes \<Rightarrow> bytes" where
  "hmac_sha256 key msg =
     (let k = (if length key > 64 then sha256_Sum256 key else key);
          k = k @ replicate (64 - length k) (CHR 0x00);
          inner = sha256_Sum256 (map (xor_byte 0x36) k @ msg)
      in sha256_Sum256 (map (xor_byte 0x5c) k @ inner))"

section \<open>createHeaders\<close>

text \<open>
  Lines 18 to 44. The nonce is the next UUID, \<open>t\<close> the next clock reading divided by
  \<^verbatim>\<open>int64(time.Millisecond)\<close>, which is 1000000, by Go's truncating division. The map
  starts empty and gets six assignments; the error returned is always \<^verbatim>\<open>nil\<close>.
\<close>

definition createHeaders ::
  "platform \<Rightarrow> world \<Rightarrow> string \<Rightarrow> string \<Rightarrow> (header_map \<times> string option) \<times> world" where
  "createHeaders p w token secret =
     (let nonce = uuid_New p (uuid_calls w);
          t = sint (time_Now_UnixNano p (clock_calls w)) sdiv 1000000;
          stringToSign = token @ Sprintf_d t @ nonce;
          signature = hmac_sha256 secret stringToSign;
          sign = EncodeToString signature;
          apiHeader = [];
          apiHeader = AList.update ''Authorization'' token apiHeader;
          apiHeader = AList.update ''Content-Type'' ''application/json'' apiHeader;
          apiHeader = AList.update ''charset'' ''utf-8'' apiHeader;
          apiHeader = AList.update ''t'' (Sprintf_d t) apiHeader;
          apiHeader = AList.update ''sign'' sign apiHeader;
          apiHeader = AList.update ''nonce'' nonce apiHeader
      in ((apiHeader, None),
          w\<lparr>uuid_calls := uuid_calls w + 1, clock_calls := clock_calls w + 1\<rparr>))"

section \<open>callSwitchBotAPI\<close>

text \<open>
  Lines 47 to 79. The result is Go's pair of a body and an error, each possibly \<^verbatim>\<open>nil\<close>
  (\<open>None\<close>). The loop over the map adds every entry to the request's header; the
  request records the entries as they were added, in the order of the association list
  (Go leaves the order of a map open, and \<^verbatim>\<open>net/http\<close> spells the keys canonically
  on its own). The deferred \<^verbatim>\<open>resp.Body.Close()\<close> changes nothing that is kept here.
\<close>

definition Header_Add :: "string \<Rightarrow> string \<Rightarrow> (string \<times> string) list \<Rightarrow> (string \<times> string) list" where
  "Header_Add key v h = h @ [(key, v)]"

definition with_headers :: "string \<Rightarrow> header_map \<Rightarrow> request" where
  "with_headers url headers =
     \<lparr>req_method = ''GET'', req_url = url,
      req_header = foldl (\<lambda>h (key, v). Header_Add key v h) [] headers\<rparr>"

definition callSwitchBotAPI ::
  "platform \<Rightarrow> world \<Rightarrow> string \<Rightarrow> header_map \<Rightarrow> (bytes option \<times> string option) \<times> world" where
  "callSwitchBotAPI p w url headers =
     (case http_NewRequest p ''GET'' url of
        Some err \<Rightarrow> ((None, Some (''error creating request: '' @ err)), w)
      | None \<Rightarrow>
          (let req = with_headers url headers;
               w' = w\<lparr>sent := sent w @ [req]\<rparr>
           in case client_Do p (length (sent w)) req of
                Inl err \<Rightarrow> ((None, Some (''error executing HTTP request: '' @ err)), w')
              | Inr resp \<Rightarrow>
                  if StatusCode resp \<noteq> 200
                  then ((None, Some (''error: API request failed with status code ''
                                      @ Sprintf_d (StatusCode resp))), w')
                  else (case Body_ReadAll resp of
                          Inl err \<Rightarrow> ((None, Some (''error reading response body: '' @ err)), w')
                        | Inr body \<Rightarrow> ((Some body, None), w'))))"

section \<open>Type assertions on decoded JSON\<close>

text \<open>
  Indexing a \<^verbatim>\<open>map[string]interface{}\<close> with a missing key gives the \<^verbatim>\<open>nil\<close>
  interface, which is also what a JSON \<^verbatim>\<open>null\<close> decodes to.
\<close>

definition index :: "(string \<times> json) list \<Rightarrow> string \<Rightarrow> json" where
  "index m key = (case map_of m key of None \<Rightarrow> JNull | Some v \<Rightarrow> v)"

fun type_name :: "json \<Rightarrow> string" where
  "type_name JNull = ''nil''"
| "type_name (JBool b) = ''bool''"
| "type_name (JNumber f) = ''float64''"
| "type_name (JString s) = ''string''"
| "type_name (JArray xs) = ''[]interface {}''"
| "type_name (JObject m) = ''map[string]interface {}''"

definition conversion_panic :: "json \<Rightarrow> string \<Rightarrow> string" where
  "conversion_panic v target =
     ''interface conversion: interface {} is '' @ type_name v @ '', not '' @ target"

text \<open>The one-result form \<^verbatim>\<open>v.(T)\<close>: the value, or a panic (\<open>Inl\<close>).\<close>

fun assert_map :: "json \<Rightarrow> string + (string \<times> json) list" where
  "assert_map (JObject m) = Inr m"
| "assert_map v = Inl (conversion_panic v ''map[string]interface {}'')"

fun assert_slice :: "json \<Rightarrow> string + json list" where
  "assert_slice (JArray xs) = Inr xs"
| "assert_slice v = Inl (conversion_panic v ''[]interface {}'')"

fun assert_string :: "json \<Rightarrow> string + string" where
  "assert_string (JString s) = Inr s"
| "assert_string v = Inl (conversion_panic v ''string'')"

text \<open>The two-result form \<^verbatim>\<open>v, ok := x.(T)\<close>: the zero value and \<^verbatim>\<open>false\<close> on a mismatch.\<close>

fun map_ok :: "json \<Rightarrow> (string \<times> json) list \<times> bool" where
  "map_ok (JObject m) = (m, True)"
| "map_ok v = ([], False)"

fun string_ok :: "json \<Rightarrow> string \<times> bool" where
  "string_ok (JString s) = (s, True)"
| "string_ok v = ('''', False)"

fun float64_ok :: "json \<Rightarrow> float64 \<times> bool" where
  "float64_ok (JNumber f) = (f, True)"
| "float64_ok v = (Float64 False 0 0, False)"

section \<open>main\<close>

text \<open>
  \<^verbatim>\<open>os.Getenv\<close> gives the empty string for an unset variable; \<^verbatim>\<open>string(b)\<close> of a
  \<^verbatim>\<open>nil\<close> slice is the empty string; \<^verbatim>\<open>fmt.Printf\<close> and \<^verbatim>\<open>fmt.Println\<close> append to
  standard output.
\<close>

definition Getenv :: "platform \<Rightarrow> string \<Rightarrow> string" where
  "Getenv p key = (case environ p key of None \<Rightarrow> '''' | Some v \<Rightarrow> v)"

definition string_of :: "bytes option \<Rightarrow> string" where
  "string_of b = (case b of None \<Rightarrow> '''' | Some s \<Rightarrow> s)"

definition Printf :: "world \<Rightarrow> string \<Rightarrow> world" where
  "Printf w s = w\<lparr>stdout := stdout w @ s\<rparr>"

definition Println :: "world \<Rightarrow> string \<Rightarrow> world" where
  "Println w s = Printf w (s @ [CHR 0x0A])"

definition apiURLDevices :: string where
  "apiURLDevices = ''https://api.switch-bot.com/v1.1/devices''"

definition apiURLDeviceStatus :: "string \<Rightarrow> string" where
  "apiURLDeviceStatus deviceID =
     ''https://api.switch-bot.com/v1.1/devices/'' @ deviceID @ ''/status''"

definition init_world :: world where
  "init_world = \<lparr>stdout = [], sent = [], uuid_calls = 0, clock_calls = 0\<rparr>"

text \<open>
  Lines 148 to 182: the report. Each of the five fields falls back to its default when the
  assertion's \<^verbatim>\<open>ok\<close> is false. The last format string holds the four bytes
  \<^verbatim>\<open>C3 82 C2 B0\<close> before the \<^verbatim>\<open>C\<close>, as the source file does.
\<close>

definition report :: "world \<Rightarrow> (string \<times> json) list \<Rightarrow> exit \<times> world" where
  "report w statusResponse =
     (case map_ok (index statusResponse ''body'') of
        (body, ok) \<Rightarrow>
          if \<not> ok
          then (Returned, Println w ''Error: response body is missing or not in expected format.'')
          else
            (let (deviceIDStatus, ok) = string_ok (index body ''deviceId'');
                 deviceIDStatus = (if \<not> ok then ''N/A'' else deviceIDStatus);
                 (deviceType, ok) = string_ok (index body ''deviceType'');
                 deviceType = (if \<not> ok then ''N/A'' else deviceType);
                 (hubDeviceId, ok) = string_ok (index body ''hubDeviceId'');
                 hubDeviceId = (if \<not> ok then ''N/A'' else hubDeviceId);
                 (humidity, ok) = float64_ok (index body ''humidity'');
                 humidity = (if \<not> ok then Float64 False 0 0 else humidity);
                 (temperature, ok) = float64_ok (index body ''temperature'');
                 temperature = (if \<not> ok then Float64 False 0 0 else temperature);
                 w = Printf w (''Device ID: '' @ deviceIDStatus @ [CHR 0x0A]);
                 w = Printf w (''Device Type: '' @ deviceType @ [CHR 0x0A]);
                 w = Printf w (''Hub Device ID: '' @ hubDeviceId @ [CHR 0x0A]);
                 w = Printf w (''Humidity: '' @ Sprintf_2f humidity @ [CHR 0x0A]);
                 w = Printf w (''Temperature: '' @ Sprintf_2f temperature
                               @ [CHR 0xC3, CHR 0x82, CHR 0xC2, CHR 0xB0] @ ''C'' @ [CHR 0x0A])
             in (Returned, w)))"

text \<open>
  Lines 124 to 146: the first device's identifier, the second call (with the header map
  \<^verbatim>\<open>apiHeader\<close> that \<^verbatim>\<open>main\<close> passes in), and the decoding of its answer.
\<close>

definition status_stage ::
  "platform \<Rightarrow> world \<Rightarrow> header_map \<Rightarrow> json list \<Rightarrow> exit \<times> world" where
  "status_stage p w apiHeader devices =
     (case assert_map (devices ! 0) of
        Inl pn \<Rightarrow> (Panicked pn, w)
      | Inr firstDevice \<Rightarrow>
          (case assert_string (index firstDevice ''deviceId'') of
             Inl pn \<Rightarrow> (Panicked pn, w)
           | Inr deviceID \<Rightarrow>
               (let w = Printf w (''Using deviceId: '' @ deviceID @ [CHR 0x0A])
                in case callSwitchBotAPI p w (apiURLDeviceStatus deviceID) apiHeader of
                     ((bodyDeviceStatus, Some err), w) \<Rightarrow>
                       (Returned,
                        Printf w (''Error calling /devices/{deviceId}/status API: '' @ err
                                  @ [CHR 0x0A]))
                   | ((bodyDeviceStatus, None), w) \<Rightarrow>
                       (let w = Printf w (''Response from /devices/{deviceId}/status: ''
                                          @ string_of bodyDeviceStatus @ [CHR 0x0A])
                        in case json_Unmarshal p (string_of bodyDeviceStatus) of
                             Inl err \<Rightarrow>
                               (Returned,
                                Printf w (''Error unmarshalling /devices/{deviceId}/status response: ''
                                          @ err @ [CHR 0x0A]))
                           | Inr statusResponse \<Rightarrow> report w statusResponse))))"

text \<open>
  Lines 106 to 122: the answer of the first call is printed and decoded, and the device list
  is taken out of it by two one-result assertions.
\<close>

definition devices_stage ::
  "platform \<Rightarrow> world \<Rightarrow> header_map \<Rightarrow> bytes option \<Rightarrow> exit \<times> world" where
  "devices_stage p w apiHeader bodyDevices =
     (let w = Printf w (''Response from /devices: '' @ string_of bodyDevices @ [CHR 0x0A])
      in case json_Unmarshal p (string_of bodyDevices) of
           Inl err \<Rightarrow>
             (Returned,
              Printf w (''Error unmarshalling /devices response: '' @ err @ [CHR 0x0A]))
         | Inr devicesResponse \<Rightarrow>
             (case assert_map (index devicesResponse ''body'') of
                Inl pn \<Rightarrow> (Panicked pn, w)
              | Inr body \<Rightarrow>
                  (case assert_slice (index body ''deviceList'') of
                     Inl pn \<Rightarrow> (Panicked pn, w)
                   | Inr devices \<Rightarrow>
                       if length devices = 0
                       then (Returned, Println w ''No devices found.'')
                       else status_stage p w apiHeader devices)))"

text \<open>
  Lines 81 to 104, and from there the stages above. \<^verbatim>\<open>createHeaders\<close> is called once,
  at line 92; both calls of \<^verbatim>\<open>callSwitchBotAPI\<close> (lines 100 and 131) get its result.
\<close>

definition main :: "platform \<Rightarrow> exit \<times> world" where
  "main p =
     (let w = init_world;
          token = Getenv p ''SWITCHBOT_TOKEN'';
          secret = Getenv p ''SWITCHBOT_API_KEY''
      in if token = '''' \<or> secret = ''''
         then (Returned,
               Println w ''Error: SWITCHBOT_TOKEN or SWITCHBOT_API_KEY environment variable is not set'')
         else
           (case createHeaders p w token secret of
              ((apiHeader, Some err), w) \<Rightarrow>
                (Returned, Printf w (''Error creating headers: '' @ err @ [CHR 0x0A]))
            | ((apiHeader, None), w) \<Rightarrow>
                (case callSwitchBotAPI p w apiURLDevices apiHeader of
                   ((bodyDevices, Some err), w) \<Rightarrow>
                     (Returned, Printf w (''Error calling /devices API: '' @ err @ [CHR 0x0A]))
                 | ((bodyDevices, None), w) \<Rightarrow> devices_stage p w apiHeader bodyDevices)))"

section \<open>Vocabulary of the properties\<close>

text \<open>
  The signature as the specification words it, a function of token, secret, timestamp and
  nonce; the header map of a run; the hypotheses that the first and the second call are
  answered with status 200 and a body read to its end; the worlds after each of the two
  answers was printed; the shapes of a decoded value; and the default of a leaf field.
\<close>

definition sign_of :: "string \<Rightarrow> string \<Rightarrow> int \<Rightarrow> string \<Rightarrow> string" where
  "sign_of token secret t nonce = EncodeToString (hmac_sha256 secret (token @ Sprintf_d t @ nonce))"

definition the_headers :: "platform \<Rightarrow> header_map" where
  "the_headers p =
     fst (fst (createHeaders p init_world (Getenv p ''SWITCHBOT_TOKEN'')
                             (Getenv p ''SWITCHBOT_API_KEY'')))"

definition ok_response :: "bytes \<Rightarrow> response" where
  "ok_response b = \<lparr>StatusCode = 200, Body_ReadAll = Inr b\<rparr>"

definition devices_answer :: "platform \<Rightarrow> bytes \<Rightarrow> bool" where
  "devices_answer p b \<longleftrightarrow>
     Getenv p ''SWITCHBOT_TOKEN'' \<noteq> '''' \<and> Getenv p ''SWITCHBOT_API_KEY'' \<noteq> '''' \<and>
     http_NewRequest p ''GET'' apiURLDevices = None \<and>
     client_Do p 0 (with_headers apiURLDevices (the_headers p)) = Inr (ok_response b)"

definition status_answer :: "platform \<Rightarrow> string \<Rightarrow> bytes \<Rightarrow> bool" where
  "status_answer p deviceID b \<longleftrightarrow>
     http_NewRequest p ''GET'' (apiURLDeviceStatus deviceID) = None \<and>
     client_Do p 1 (with_headers (apiURLDeviceStatus deviceID) (the_headers p))
       = Inr (ok_response b)"

definition after_devices :: "platform \<Rightarrow> bytes \<Rightarrow> world" where
  "after_devices p b =
     \<lparr>stdout = ''Response from /devices: '' @ b @ [CHR 0x0A],
      sent = [with_headers apiURLDevices (the_headers p)],
      uuid_calls = 1, clock_calls = 1\<rparr>"

definition after_status :: "platform \<Rightarrow> bytes \<Rightarrow> string \<Rightarrow> bytes \<Rightarrow> world" where
  "after_status p b deviceID b' =
     \<lparr>stdout = ''Response from /devices: '' @ b @ [CHR 0x0A]
               @ ''Using deviceId: '' @ deviceID @ [CHR 0x0A]
               @ ''Response from /devices/{deviceId}/status: '' @ b' @ [CHR 0x0A],
      sent = [with_headers apiURLDevices (the_headers p),
              with_headers (apiURLDeviceStatus deviceID) (the_headers p)],
      uuid_calls = 1, clock_calls = 1\<rparr>"

fun is_object :: "json \<Rightarrow> bool" where
  "is_object (JObject m) = True"
| "is_object v = False"

fun is_array :: "json \<Rightarrow> bool" where
  "is_array (JArray xs) = True"
| "is_array v = False"

fun is_string :: "json \<Rightarrow> bool" where
  "is_string (JString s) = True"
| "is_string v = False"

fun string_or_NA :: "json \<Rightarrow> string" where
  "string_or_NA (JString s) = s"
| "string_or_NA v = ''N/A''"

fun number_or_zero :: "json \<Rightarrow> float64" where
  "number_or_zero (JNumber f) = f"
| "number_or_zero v = Float64 False 0 0"

text \<open>
  How a stage may change the world: it sends nothing or one request with the given header
  map, and draws no UUID and no clock reading.
\<close>

definition grows :: "header_map \<Rightarrow> world \<Rightarrow> world \<Rightarrow> bool" where
  "grows h w w' \<longleftrightarrow>
     (sent w' = sent w \<or> (\<exists>url. sent w' = sent w @ [with_headers url h]))
     \<and> uuid_calls w' = uuid_calls w \<and> clock_calls w' = clock_calls w"

section \<open>Sample runs\<close>

text \<open>
  Concrete platforms: two UUIDs, a clock, a server that answers the two URLs with given
  bodies, and the decoding of the bodies used.
\<close>

definition sample_uuid :: "nat \<Rightarrow> string" where
  "sample_uuid k =
     (if k = 0 then ''6f1c2a9e-3b7d-4c55-9e0a-1d2f3a4b5c6d''
      else ''0a1b2c3d-4e5f-4a6b-8c7d-9e8f7a6b5c4d'')"

definition sample_clock :: "nat \<Rightarrow> 64 word" where
  "sample_clock k = 1700000000123456789 + 250000000 * of_nat k"

definition devices_one :: bytes where
  \<open>devices_one = ''{"body":{"deviceList":[{"deviceId":"ABC123"}]}}''\<close>

definition devices_none :: bytes where
  \<open>devices_none = ''{"body":{"deviceList":[]}}''\<close>

definition devices_no_body :: bytes where
  \<open>devices_no_body = ''{"message":"Unauthorized"}''\<close>

definition devices_no_list :: bytes where
  \<open>devices_no_list = ''{"body":{}}''\<close>

definition devices_bad_id :: bytes where
  \<open>devices_bad_id = ''{"body":{"deviceList":[{"deviceId":7}]}}''\<close>

definition devices_bad_first :: bytes where
  \<open>devices_bad_first = ''{"body":{"deviceList":["ABC123"]}}''\<close>

definition status_full :: bytes where
  \<open>status_full = ''{"body":{"deviceId":"ABC123","deviceType":"Meter","humidity":55.5}}''\<close>

definition status_partial :: bytes where
  \<open>status_partial = ''{"body":{"deviceId":"ABC123","temperature":"warm"}}''\<close>

definition status_no_body :: bytes where
  \<open>status_no_body = ''{"message":"device offline"}''\<close>

definition sample_Unmarshal :: "bytes \<Rightarrow> string + (string \<times> json) list" where
  "sample_Unmarshal b =
     (if b = devices_one
      then Inr [(''body'', JObject [(''deviceList'',
                   JArray [JObject [(''deviceId'', JString ''ABC123'')]])])]
      else if b = devices_none then Inr [(''body'', JObject [(''deviceList'', JArray [])])]
      else if b = devices_no_body then Inr [(''message'', JString ''Unauthorized'')]
      else if b = devices_no_list then Inr [(''body'', JObject [])]
      else if b = devices_bad_id
      then Inr [(''body'', JObject [(''deviceList'',
                   JArray [JObject [(''deviceId'', JNumber (Float64 False 7 0))]])])]
      else if b = devices_bad_first
      then Inr [(''body'', JObject [(''deviceList'', JArray [JString ''ABC123''])])]
      else if b = status_full
      then Inr [(''body'', JObject [(''deviceId'', JString ''ABC123''),
                                    (''deviceType'', JString ''Meter''),
                                    (''humidity'', JNumber (Float64 False 111 (- 1)))])]
      else if b = status_partial
      then Inr [(''body'', JObject [(''deviceId'', JString ''ABC123''),
                                    (''temperature'', JString ''warm'')])]
      else if b = status_no_body then Inr [(''message'', JString ''device offline'')]
      else Inl ''unexpected end of JSON input'')"

definition sample_platform ::
  "(string \<rightharpoonup> string) \<Rightarrow> (nat \<Rightarrow> string \<Rightarrow> string + response) \<Rightarrow> platform" where
  "sample_platform env server =
     \<lparr>environ = env, uuid_New = sample_uuid, time_Now_UnixNano = sample_clock,
      http_NewRequest = (\<lambda>m url. None),
      client_Do = (\<lambda>k req. server k (req_url req)),
      json_Unmarshal = sample_Unmarshal\<rparr>"

definition sample_env :: "string \<rightharpoonup> string" where
  "sample_env = [''SWITCHBOT_TOKEN'' \<mapsto> ''token-1'', ''SWITCHBOT_API_KEY'' \<mapsto> ''secret-1'']"

definition serve :: "bytes \<Rightarrow> bytes \<Rightarrow> nat \<Rightarrow> string \<Rightarrow> string + response" where
  "serve b b' k url = (if url = apiURLDevices then Inr (ok_response b) else Inr (ok_response b'))"

section \<open>Stage lemmas\<close>

lemma createHeaders_init:
  "createHeaders p init_world (Getenv p ''SWITCHBOT_TOKEN'') (Getenv p ''SWITCHBOT_API_KEY'')
     = ((the_headers p, None), \<lparr>stdout = [], sent = [], uuid_calls = 1, clock_calls = 1\<rparr>)"
  by (simp add: the_headers_def createHeaders_def init_world_def Let_def)

lemma main_devices_answer:
  assumes "devices_answer p b"
  shows "main p = devices_stage p
           \<lparr>stdout = [], sent = [with_headers apiURLDevices (the_headers p)],
            uuid_calls = 1, clock_calls = 1\<rparr> (the_headers p) (Some b)"
  using assms
  by (simp add: main_def devices_answer_def createHeaders_init callSwitchBotAPI_def
      ok_response_def Let_def)

lemma devices_stage_list:
  assumes "json_Unmarshal p b = Inr r" and "index r ''body'' = JObject bd"
    and "index bd ''deviceList'' = JArray ds"
  shows "devices_stage p \<lparr>stdout = [], sent = [with_headers apiURLDevices (the_headers p)],
            uuid_calls = 1, clock_calls = 1\<rparr> (the_headers p) (Some b)
         = (if length ds = 0 then (Returned, Println (after_devices p b) ''No devices found.'')
            else status_stage p (after_devices p b) (the_headers p) ds)"
  using assms
  by (simp add: devices_stage_def string_of_def Printf_def after_devices_def Let_def)

lemma status_stage_answer:
  assumes "index fd ''deviceId'' = JString d" and "status_answer p d b'"
  shows "status_stage p (after_devices p b) (the_headers p) (JObject fd # rest)
         = (case json_Unmarshal p b' of
              Inl err \<Rightarrow>
                (Returned,
                 Printf (after_status p b d b')
                   (''Error unmarshalling /devices/{deviceId}/status response: '' @ err
                    @ [CHR 0x0A]))
            | Inr sr \<Rightarrow> report (after_status p b d b') sr)"
  using assms
  by (simp add: status_stage_def status_answer_def callSwitchBotAPI_def ok_response_def
      after_devices_def after_status_def Printf_def string_of_def Let_def
      split: sum.splits)

section \<open>What a stage leaves unchanged\<close>

lemma Printf_fields [simp]:
  "sent (Printf w s) = sent w" "uuid_calls (Printf w s) = uuid_calls w"
  "clock_calls (Printf w s) = clock_calls w" "stdout (Printf w s) = stdout w @ s"
  by (simp_all add: Printf_def)

lemma Println_fields [simp]:
  "sent (Println w s) = sent w" "uuid_calls (Println w s) = uuid_calls w"
  "clock_calls (Println w s) = clock_calls w" "stdout (Println w s) = stdout w @ s @ [CHR 0x0A]"
  by (simp_all add: Println_def)

lemma grows_Printf: "grows h w w' \<Longrightarrow> grows h w (Printf w' s)"
  by (simp add: grows_def)

lemma grows_Println: "grows h w w' \<Longrightarrow> grows h w (Println w' s)"
  by (simp add: grows_def)

lemma grows_refl: "grows h w w"
  by (simp add: grows_def)

lemma grows_from_Printf: "grows h (Printf w s) w' \<Longrightarrow> grows h w w'"
  by (simp add: grows_def)

lemma report_keeps: "grows h w w' \<Longrightarrow> grows h w (snd (report w' sr))"
  by (simp add: report_def Let_def grows_Printf grows_Println split: prod.splits)

lemma callSwitchBotAPI_grows: "grows h w (snd (callSwitchBotAPI p w url h))"
  by (auto simp: callSwitchBotAPI_def Let_def grows_def split: option.splits sum.splits)

lemma callSwitchBotAPI_after_Printf:
  "callSwitchBotAPI p (Printf w s) url h = (r, w') \<Longrightarrow> grows h w w'"
  using callSwitchBotAPI_grows [of h "Printf w s" p url] by (simp add: grows_from_Printf)

lemma status_stage_grows: "grows h w (snd (status_stage p w h ds))"
  by (auto simp: status_stage_def Let_def grows_refl
      split: sum.splits prod.splits option.splits
      intro!: report_keeps grows_Printf dest: callSwitchBotAPI_after_Printf)

lemma status_stage_after_Printf: "grows h w (snd (status_stage p (Printf w s) h ds))"
  using status_stage_grows [of h "Printf w s" p ds] by (rule grows_from_Printf)

lemma devices_stage_grows: "grows h w (snd (devices_stage p w h b))"
  by (auto simp: devices_stage_def Let_def grows_refl status_stage_after_Printf
      split: sum.splits intro!: grows_Printf grows_Println)

lemma main_world:
  "snd (main p) = Println init_world
       ''Error: SWITCHBOT_TOKEN or SWITCHBOT_API_KEY environment variable is not set''
   \<or> (uuid_calls (snd (main p)) = 1 \<and> clock_calls (snd (main p)) = 1
       \<and> (sent (snd (main p)) = []
           \<or> (\<exists>u. sent (snd (main p)) = [with_headers u (the_headers p)])
           \<or> (\<exists>u u'. sent (snd (main p))
                 = [with_headers u (the_headers p), with_headers u' (the_headers p)])))"
proof (cases "Getenv p ''SWITCHBOT_TOKEN'' = '''' \<or> Getenv p ''SWITCHBOT_API_KEY'' = ''''")
  case True
  then show ?thesis by (auto simp: main_def Let_def)
next
  case False
  define w1 where "w1 = \<lparr>stdout = [], sent = [], uuid_calls = 1, clock_calls = 1\<rparr>"
  obtain body err w2
    where call: "callSwitchBotAPI p w1 apiURLDevices (the_headers p) = ((body, err), w2)"
    by (metis prod.exhaust)
  have g1: "grows (the_headers p) w1 w2"
    using callSwitchBotAPI_grows [of "the_headers p" w1 p apiURLDevices] call by simp
  have g2: "grows (the_headers p) w2 (snd (devices_stage p w2 (the_headers p) body))"
    by (rule devices_stage_grows)
  have m: "snd (main p)
             = (case err of
                  Some e \<Rightarrow> Printf w2 (''Error calling /devices API: '' @ e @ [CHR 0x0A])
                | None \<Rightarrow> snd (devices_stage p w2 (the_headers p) body))"
    using False call
    by (simp add: main_def Let_def createHeaders_init w1_def split: option.splits)
  have "grows (the_headers p) w2 (snd (main p))"
    unfolding m using g2 by (simp add: grows_Printf grows_refl split: option.splits)
  with g1 show ?thesis
    by (auto simp: grows_def w1_def)
qed

section \<open>Sample runs, evaluated\<close>

lemma sample_answers:
  "devices_answer (sample_platform sample_env (serve b b')) b"
  "status_answer (sample_platform sample_env (serve b b')) ''ABC123'' b'"
  by (simp_all add: devices_answer_def status_answer_def sample_platform_def sample_env_def
      serve_def Getenv_def with_headers_def apiURLDevices_def apiURLDeviceStatus_def)

lemma sample_decode: "json_Unmarshal (sample_platform env srv) = sample_Unmarshal"
  by (simp add: sample_platform_def)

lemmas sample_bodies =
  devices_one_def devices_none_def devices_no_body_def devices_no_list_def devices_bad_id_def
  devices_bad_first_def status_full_def status_partial_def status_no_body_def

lemma decode_devices_one:
  "sample_Unmarshal devices_one
     = Inr [(''body'', JObject [(''deviceList'',
              JArray [JObject [(''deviceId'', JString ''ABC123'')]])])]"
  by (simp add: sample_Unmarshal_def)

lemma decode_devices_none:
  "sample_Unmarshal devices_none = Inr [(''body'', JObject [(''deviceList'', JArray [])])]"
  by (simp add: sample_Unmarshal_def sample_bodies)

lemma decode_devices_no_body:
  "sample_Unmarshal devices_no_body = Inr [(''message'', JString ''Unauthorized'')]"
  by (simp add: sample_Unmarshal_def sample_bodies)

lemma decode_devices_no_list:
  "sample_Unmarshal devices_no_list = Inr [(''body'', JObject [])]"
  by (simp add: sample_Unmarshal_def sample_bodies)

lemma decode_devices_bad_id:
  "sample_Unmarshal devices_bad_id
     = Inr [(''body'', JObject [(''deviceList'',
              JArray [JObject [(''deviceId'', JNumber (Float64 False 7 0))]])])]"
  by (simp add: sample_Unmarshal_def sample_bodies)

lemma decode_devices_bad_first:
  "sample_Unmarshal devices_bad_first
     = Inr [(''body'', JObject [(''deviceList'', JArray [JString ''ABC123''])])]"
  by (simp add: sample_Unmarshal_def sample_bodies)

lemma decode_status_full:
  "sample_Unmarshal status_full
     = Inr [(''body'', JObject [(''deviceId'', JString ''ABC123''),
                                (''deviceType'', JString ''Meter''),
                                (''humidity'', JNumber (Float64 False 111 (- 1)))])]"
  by (simp add: sample_Unmarshal_def sample_bodies)

lemma decode_status_partial:
  "sample_Unmarshal status_partial
     = Inr [(''body'', JObject [(''deviceId'', JString ''ABC123''),
                                (''temperature'', JString ''warm'')])]"
  by (simp add: sample_Unmarshal_def sample_bodies)

lemma decode_status_no_body:
  "sample_Unmarshal status_no_body = Inr [(''message'', JString ''device offline'')]"
  by (simp add: sample_Unmarshal_def sample_bodies)

lemma Sprintf_2f_zero: "Sprintf_2f (Float64 False 0 0) = ''0.00''"
  by (simp add: Sprintf_2f_def hundredths_def dec_nat.simps digit_def)

lemma Sprintf_2f_55_5: "Sprintf_2f (Float64 False 111 (- 1)) = ''55.50''"
  by (simp add: Sprintf_2f_def hundredths_def round_half_even_def dec_nat.simps digit_def)

section \<open>Further stage lemmas\<close>

lemma main_device_list:
  assumes "devices_answer p b" and "json_Unmarshal p b = Inr r"
    and "index r ''body'' = JObject bd" and "index bd ''deviceList'' = JArray ds"
  shows "main p = (if length ds = 0
                   then (Returned, Println (after_devices p b) ''No devices found.'')
                   else status_stage p (after_devices p b) (the_headers p) ds)"
  using assms by (simp only: main_devices_answer devices_stage_list)

lemma main_status_decode:
  assumes "devices_answer p b" and "json_Unmarshal p b = Inr r"
    and "index r ''body'' = JObject bd"
    and "index bd ''deviceList'' = JArray (JObject fd # rest)"
    and "index fd ''deviceId'' = JString d" and "status_answer p d b'"
    and "json_Unmarshal p b' = Inr sr"
  shows "main p = report (after_status p b d b') sr"
  using assms by (simp add: main_device_list status_stage_answer)

lemma report_sent: "sent (snd (report w sr)) = sent w"
  by (simp add: report_def Let_def split: prod.splits)

lemma status_stage_sends:
  assumes "index fd ''deviceId'' = JString d"
    and "http_NewRequest p ''GET'' (apiURLDeviceStatus d) = None"
  shows "sent (snd (status_stage p w h (JObject fd # rest)))
         = sent w @ [with_headers (apiURLDeviceStatus d) h]"
  using assms
  by (simp add: status_stage_def callSwitchBotAPI_def Let_def report_sent
      split: sum.splits option.splits)

section \<open>The header set\<close>

text \<open>
  C2. For every token and secret, and for the nonce and the millisecond timestamp \<open>t\<close>
  drawn inside it, \<^verbatim>\<open>createHeaders\<close> returns a map with exactly six entries:
  \<open>Authorization\<close> is the raw token, \<open>Content-Type\<close> is \<open>application/json\<close>,
  \<open>charset\<close> is \<open>utf-8\<close>, \<open>t\<close> is the timestamp in decimal, \<open>nonce\<close> is the
  nonce, and \<open>sign\<close> is the standard base64 encoding of HMAC-SHA256, keyed by the secret,
  of token, decimal timestamp and nonce joined without separators; \<^const>\<open>sign_of\<close>
  is a function of token, secret, timestamp and nonce alone.
\<close>

theorem createHeaders_six_entries:
  "map_of (fst (fst (createHeaders p w token secret))) =
     [''Authorization'' \<mapsto> token,
      ''Content-Type'' \<mapsto> ''application/json'',
      ''charset'' \<mapsto> ''utf-8'',
      ''t'' \<mapsto> Sprintf_d (sint (time_Now_UnixNano p (clock_calls w)) sdiv 1000000),
      ''sign'' \<mapsto> sign_of token secret (sint (time_Now_UnixNano p (clock_calls w)) sdiv 1000000)
                    (uuid_New p (uuid_calls w)),
      ''nonce'' \<mapsto> uuid_New p (uuid_calls w)]
   \<and> length (fst (fst (createHeaders p w token secret))) = 6
   \<and> distinct (map fst (fst (fst (createHeaders p w token secret))))"
  by (simp add: createHeaders_def sign_of_def Let_def fun_eq_iff)

text \<open>
  C3. For every token and secret \<^verbatim>\<open>createHeaders\<close> returns a header map and a
  \<^verbatim>\<open>nil\<close> error: no input makes its error result anything else.
\<close>

theorem createHeaders_never_fails:
  "\<exists>apiHeader w'. createHeaders p w token secret = ((apiHeader, None), w')"
  by (simp add: createHeaders_def Let_def)

lemma sample_reaches_report:
  assumes "sample_Unmarshal b' = Inr sr"
  shows "main (sample_platform sample_env (serve devices_one b'))
         = report (after_status (sample_platform sample_env (serve devices_one b'))
                     devices_one ''ABC123'' b') sr"
  using main_status_decode
    [where p = "sample_platform sample_env (serve devices_one b')" and b = devices_one
       and r = "[(''body'', JObject [(''deviceList'',
                    JArray [JObject [(''deviceId'', JString ''ABC123'')]])])]"
       and bd = "[(''deviceList'', JArray [JObject [(''deviceId'', JString ''ABC123'')]])]"
       and fd = "[(''deviceId'', JString ''ABC123'')]" and rest = "[]"
       and d = "''ABC123''" and b' = b' and sr = sr]
  by (simp add: sample_answers sample_decode decode_devices_one index_def assms)

lemma sample_run_full:
  "main (sample_platform sample_env (serve devices_one status_full))
   = report (after_status (sample_platform sample_env (serve devices_one status_full))
               devices_one ''ABC123'' status_full)
       [(''body'', JObject [(''deviceId'', JString ''ABC123''),
                            (''deviceType'', JString ''Meter''),
                            (''humidity'', JNumber (Float64 False 111 (- 1)))])]"
  by (rule sample_reaches_report [OF decode_status_full])

lemma sample_sent_full:
  "sent (snd (main (sample_platform sample_env (serve devices_one status_full))))
   = [with_headers apiURLDevices
        (the_headers (sample_platform sample_env (serve devices_one status_full))),
      with_headers (apiURLDeviceStatus ''ABC123'')
        (the_headers (sample_platform sample_env (serve devices_one status_full)))]"
  by (simp add: sample_run_full report_sent after_status_def)

lemma sample_nonce:
  "map_of (req_header (with_headers url (the_headers (sample_platform sample_env srv))))
     ''nonce'' = Some (sample_uuid 0)"
  by (simp add: with_headers_def the_headers_def createHeaders_def Let_def Header_Add_def
      init_world_def sample_platform_def)

section \<open>Freshness of the headers\<close>

text \<open>
  C1, as stated, fails. In the sample run both calls are answered, and the second request
  carries the header entries of the first, with the first UUID as its nonce: one UUID and
  one clock reading were drawn in the whole run, although the next UUID would have differed.
\<close>

theorem second_call_headers_not_fresh:
  "length (sent (snd (main (sample_platform sample_env (serve devices_one status_full))))) = 2
   \<and> req_header (sent (snd (main (sample_platform sample_env
                                    (serve devices_one status_full)))) ! 1)
     = req_header (sent (snd (main (sample_platform sample_env
                                      (serve devices_one status_full)))) ! 0)
   \<and> map_of (req_header (sent (snd (main (sample_platform sample_env
                                            (serve devices_one status_full)))) ! 1))
        ''nonce'' = Some (sample_uuid 0)
   \<and> sample_uuid 1 \<noteq> sample_uuid 0
   \<and> uuid_calls (snd (main (sample_platform sample_env (serve devices_one status_full)))) = 1
   \<and> clock_calls (snd (main (sample_platform sample_env (serve devices_one status_full)))) = 1"
proof -
  let ?p = "sample_platform sample_env (serve devices_one status_full)"
  have c: "uuid_calls (snd (main ?p)) = 1 \<and> clock_calls (snd (main ?p)) = 1"
    using report_keeps [OF grows_refl, of "the_headers ?p"
        "after_status ?p devices_one ''ABC123'' status_full"]
    by (simp add: sample_run_full grows_def after_status_def)
  have h: "req_header (with_headers u hs) = req_header (with_headers u' hs)" for u u' hs
    by (simp add: with_headers_def)
  show ?thesis
    by (simp add: sample_sent_full sample_nonce c h [of "apiURLDeviceStatus ''ABC123''"]
        sample_uuid_def)
qed

text \<open>
  C1, amended. For every run that reaches the device-status call, the headers attached to
  the second HTTP GET are the header set of the first call: the one set that
  \<^verbatim>\<open>createHeaders\<close> built before the first call, from the only nonce and the only
  timestamp drawn in the run.
\<close>

theorem second_call_reuses_headers:
  assumes "length (sent (snd (main p))) = 2"
  shows "req_header (sent (snd (main p)) ! 1) = req_header (sent (snd (main p)) ! 0)
         \<and> sent (snd (main p)) ! 1
             = with_headers (req_url (sent (snd (main p)) ! 1)) (the_headers p)
         \<and> uuid_calls (snd (main p)) = 1 \<and> clock_calls (snd (main p)) = 1"
proof -
  from main_world [of p] assms
  obtain u u' where s: "sent (snd (main p))
       = [with_headers u (the_headers p), with_headers u' (the_headers p)]"
    and c: "uuid_calls (snd (main p)) = 1" "clock_calls (snd (main p)) = 1"
    by (auto simp: Println_def Printf_def init_world_def)
  show ?thesis
    by (simp add: s c with_headers_def)
qed

theorem second_call_reuses_headers_witness:
  "length (sent (snd (main (sample_platform sample_env (serve devices_one status_partial))))) = 2
   \<and> req_header (sent (snd (main (sample_platform sample_env
                                    (serve devices_one status_partial)))) ! 1)
     = req_header (sent (snd (main (sample_platform sample_env
                                      (serve devices_one status_partial)))) ! 0)
   \<and> uuid_calls (snd (main (sample_platform sample_env (serve devices_one status_partial)))) = 1
   \<and> clock_calls (snd (main (sample_platform sample_env (serve devices_one status_partial)))) = 1"
proof -
  let ?p = "sample_platform sample_env (serve devices_one status_partial)"
  have "main ?p = report (after_status ?p devices_one ''ABC123'' status_partial)
          [(''body'', JObject [(''deviceId'', JString ''ABC123''),
                               (''temperature'', JString ''warm'')])]"
    by (rule sample_reaches_report [OF decode_status_partial])
  then have len: "length (sent (snd (main ?p))) = 2"
    by (simp add: report_sent after_status_def)
  from second_call_reuses_headers [OF len] len show ?thesis
    by simp
qed

section \<open>The API client\<close>

text \<open>
  C4. For every response that \<^verbatim>\<open>callSwitchBotAPI\<close> receives: a status code other than 200
  gives an error that carries the code, and no body; status 200 with a body read to its end
  gives exactly that body; a failed read gives a read error that carries the cause. Whenever
  the error is not \<^verbatim>\<open>nil\<close>, the body is \<^verbatim>\<open>nil\<close>.
\<close>

theorem callSwitchBotAPI_by_status:
  "(snd (fst (callSwitchBotAPI p w url headers)) \<noteq> None
      \<longrightarrow> fst (fst (callSwitchBotAPI p w url headers)) = None)
   \<and> (http_NewRequest p ''GET'' url = None
        \<and> client_Do p (length (sent w)) (with_headers url headers) = Inr resp
      \<longrightarrow> (StatusCode resp \<noteq> 200
             \<longrightarrow> fst (callSwitchBotAPI p w url headers)
                 = (None, Some (''error: API request failed with status code ''
                                @ Sprintf_d (StatusCode resp))))
          \<and> (StatusCode resp = 200 \<and> Body_ReadAll resp = Inr body
             \<longrightarrow> fst (callSwitchBotAPI p w url headers) = (Some body, None))
          \<and> (StatusCode resp = 200 \<and> Body_ReadAll resp = Inl err
             \<longrightarrow> fst (callSwitchBotAPI p w url headers)
                 = (None, Some (''error reading response body: '' @ err))))"
  by (simp add: callSwitchBotAPI_def Let_def split: option.splits sum.splits)

theorem callSwitchBotAPI_by_status_witness:
  "fst (callSwitchBotAPI
          (sample_platform sample_env
             (\<lambda>k url. Inr \<lparr>StatusCode = 404, Body_ReadAll = Inr ''not found''\<rparr>))
          init_world apiURLDevices [(''t'', ''0'')])
     = (None, Some ''error: API request failed with status code 404'')
   \<and> fst (callSwitchBotAPI
          (sample_platform sample_env
             (\<lambda>k url. Inr \<lparr>StatusCode = 200, Body_ReadAll = Inr devices_none\<rparr>))
          init_world apiURLDevices [(''t'', ''0'')])
     = (Some devices_none, None)
   \<and> fst (callSwitchBotAPI
          (sample_platform sample_env
             (\<lambda>k url. Inr \<lparr>StatusCode = 200, Body_ReadAll = Inl ''unexpected EOF''\<rparr>))
          init_world apiURLDevices [(''t'', ''0'')])
     = (None, Some ''error reading response body: unexpected EOF'')"
  using
    callSwitchBotAPI_by_status
      [of "sample_platform sample_env
             (\<lambda>k url. Inr \<lparr>StatusCode = 404, Body_ReadAll = Inr ''not found''\<rparr>)"
          init_world apiURLDevices "[(''t'', ''0'')]"
          "\<lparr>StatusCode = 404, Body_ReadAll = Inr ''not found''\<rparr>"]
    callSwitchBotAPI_by_status
      [of "sample_platform sample_env
             (\<lambda>k url. Inr \<lparr>StatusCode = 200, Body_ReadAll = Inr devices_none\<rparr>)"
          init_world apiURLDevices "[(''t'', ''0'')]"
          "\<lparr>StatusCode = 200, Body_ReadAll = Inr devices_none\<rparr>" devices_none]
    callSwitchBotAPI_by_status
      [of "sample_platform sample_env
             (\<lambda>k url. Inr \<lparr>StatusCode = 200, Body_ReadAll = Inl ''unexpected EOF''\<rparr>)"
          init_world apiURLDevices "[(''t'', ''0'')]"
          "\<lparr>StatusCode = 200, Body_ReadAll = Inl ''unexpected EOF''\<rparr>" _ "''unexpected EOF''"]
  by (simp add: sample_platform_def Sprintf_d_def dec_nat.simps digit_def)

section \<open>The run\<close>

text \<open>
  C5. In every environment where the token variable or the secret variable is unset or
  empty, the program prints the configuration error and returns: no header set is built
  (no UUID and no clock reading is drawn) and no request is sent.
\<close>

theorem missing_credentials_abort:
  assumes "environ p ''SWITCHBOT_TOKEN'' = None \<or> environ p ''SWITCHBOT_TOKEN'' = Some ''''
           \<or> environ p ''SWITCHBOT_API_KEY'' = None
           \<or> environ p ''SWITCHBOT_API_KEY'' = Some ''''"
  shows "main p =
           (Returned,
            \<lparr>stdout = ''Error: SWITCHBOT_TOKEN or SWITCHBOT_API_KEY environment variable is not set''
                       @ [CHR 0x0A],
             sent = [], uuid_calls = 0, clock_calls = 0\<rparr>)"
  using assms
  by (auto simp: main_def Getenv_def Let_def Println_def Printf_def init_world_def)

theorem missing_credentials_abort_witness:
  "main (sample_platform [''SWITCHBOT_API_KEY'' \<mapsto> ''secret-1''] (serve devices_one status_full))
     = (Returned,
        \<lparr>stdout = ''Error: SWITCHBOT_TOKEN or SWITCHBOT_API_KEY environment variable is not set''
                   @ [CHR 0x0A],
         sent = [], uuid_calls = 0, clock_calls = 0\<rparr>)
   \<and> main (sample_platform [''SWITCHBOT_TOKEN'' \<mapsto> ''token-1'', ''SWITCHBOT_API_KEY'' \<mapsto> '''']
             (serve devices_one status_full))
     = (Returned,
        \<lparr>stdout = ''Error: SWITCHBOT_TOKEN or SWITCHBOT_API_KEY environment variable is not set''
                   @ [CHR 0x0A],
         sent = [], uuid_calls = 0, clock_calls = 0\<rparr>)"
  using
    missing_credentials_abort
      [of "sample_platform [''SWITCHBOT_API_KEY'' \<mapsto> ''secret-1'']
             (serve devices_one status_full)"]
    missing_credentials_abort
      [of "sample_platform [''SWITCHBOT_TOKEN'' \<mapsto> ''token-1'', ''SWITCHBOT_API_KEY'' \<mapsto> '''']
             (serve devices_one status_full)"]
  by (simp add: sample_platform_def)

text \<open>
  C6. For every devices response whose decoded JSON has a \<open>body.deviceList\<close> that is an
  empty list, the run prints \<open>No devices found.\<close> and returns, with one request sent and
  no second one.
\<close>

theorem empty_device_list_stops:
  assumes "devices_answer p b" and "json_Unmarshal p b = Inr r"
    and "index r ''body'' = JObject bd" and "index bd ''deviceList'' = JArray []"
  shows "main p =
           (Returned,
            \<lparr>stdout = ''Response from /devices: '' @ b @ [CHR 0x0A]
                       @ ''No devices found.'' @ [CHR 0x0A],
             sent = [with_headers apiURLDevices (the_headers p)],
             uuid_calls = 1, clock_calls = 1\<rparr>)
         \<and> length (sent (snd (main p))) = 1"
  using main_device_list [OF assms]
  by (simp add: after_devices_def Println_def Printf_def)

theorem empty_device_list_stops_witness:
  "fst (main (sample_platform sample_env (serve devices_none status_full))) = Returned
   \<and> stdout (snd (main (sample_platform sample_env (serve devices_none status_full))))
       = ''Response from /devices: '' @ devices_none @ [CHR 0x0A]
         @ ''No devices found.'' @ [CHR 0x0A]
   \<and> length (sent (snd (main (sample_platform sample_env (serve devices_none status_full))))) = 1"
  using empty_device_list_stops
    [where p = "sample_platform sample_env (serve devices_none status_full)"
       and b = devices_none and r = "[(''body'', JObject [(''deviceList'', JArray [])])]"
       and bd = "[(''deviceList'', JArray [])]"]
  by (simp add: sample_answers sample_decode decode_devices_none index_def)

text \<open>
  C7. For every devices response whose first device record has the string identifier
  \<open>ABC123\<close>, the URL of the second HTTP GET is the base URL followed by
  \<open>/devices/ABC123/status\<close>; in general it is the fixed base URL with the selected
  identifier put into the device-status path.
\<close>

theorem status_url_of_first_device:
  assumes "devices_answer p b" and "json_Unmarshal p b = Inr r"
    and "index r ''body'' = JObject bd"
    and "index bd ''deviceList'' = JArray (JObject fd # rest)"
    and "index fd ''deviceId'' = JString d"
    and "http_NewRequest p ''GET'' (apiURLDeviceStatus d) = None"
  shows "length (sent (snd (main p))) = 2
         \<and> req_method (sent (snd (main p)) ! 1) = ''GET''
         \<and> req_url (sent (snd (main p)) ! 1)
             = ''https://api.switch-bot.com/v1.1/devices/'' @ d @ ''/status''
         \<and> (d = ''ABC123''
              \<longrightarrow> req_url (sent (snd (main p)) ! 1)
                  = ''https://api.switch-bot.com/v1.1'' @ ''/devices/ABC123/status'')"
proof -
  have "main p = status_stage p (after_devices p b) (the_headers p) (JObject fd # rest)"
    using main_device_list [OF assms(1-4)] by simp
  then have "sent (snd (main p))
      = [with_headers apiURLDevices (the_headers p),
         with_headers (apiURLDeviceStatus d) (the_headers p)]"
    using status_stage_sends [OF assms(5,6)] by (simp add: after_devices_def)
  then show ?thesis
    by (simp add: with_headers_def apiURLDeviceStatus_def)
qed

theorem status_url_of_first_device_witness:
  "length (sent (snd (main (sample_platform sample_env (serve devices_one status_full))))) = 2
   \<and> req_url (sent (snd (main (sample_platform sample_env
                                 (serve devices_one status_full)))) ! 1)
       = ''https://api.switch-bot.com/v1.1/devices/ABC123/status''"
  using status_url_of_first_device
    [where p = "sample_platform sample_env (serve devices_one status_full)"
       and b = devices_one
       and r = "[(''body'', JObject [(''deviceList'',
                    JArray [JObject [(''deviceId'', JString ''ABC123'')]])])]"
       and bd = "[(''deviceList'', JArray [JObject [(''deviceId'', JString ''ABC123'')]])]"
       and fd = "[(''deviceId'', JString ''ABC123'')]" and rest = "[]"
       and d = "''ABC123''"]
    sample_answers(2) [of devices_one status_full]
  by (simp add: sample_answers(1) sample_decode decode_devices_one index_def status_answer_def)

lemma string_ok_default:
  "(if \<not> snd (string_ok v) then ''N/A'' else fst (string_ok v)) = string_or_NA v"
  by (cases v) simp_all

lemma float64_ok_default:
  "(if \<not> snd (float64_ok v) then Float64 False 0 0 else fst (float64_ok v))
     = number_or_zero v"
  by (cases v) simp_all

lemma report_object:
  assumes "index sr ''body'' = JObject sb"
  shows "report w sr
      = (Returned,
         Printf (Printf (Printf (Printf (Printf w
           (''Device ID: '' @ string_or_NA (index sb ''deviceId'') @ [CHR 0x0A]))
           (''Device Type: '' @ string_or_NA (index sb ''deviceType'') @ [CHR 0x0A]))
           (''Hub Device ID: '' @ string_or_NA (index sb ''hubDeviceId'') @ [CHR 0x0A]))
           (''Humidity: '' @ Sprintf_2f (number_or_zero (index sb ''humidity'')) @ [CHR 0x0A]))
           (''Temperature: '' @ Sprintf_2f (number_or_zero (index sb ''temperature''))
            @ [CHR 0xC3, CHR 0x82, CHR 0xC2, CHR 0xB0] @ ''C'' @ [CHR 0x0A]))"
  unfolding report_def Let_def assms case_prod_beta
  by (simp only: map_ok.simps fst_conv snd_conv simp_thms if_False
      string_ok_default float64_ok_default)

text \<open>
  C8. For every status response whose decoded JSON has an object as \<open>body\<close>: the run
  returns after printing the five fields, each string field (\<open>deviceId\<close>,
  \<open>deviceType\<close>, \<open>hubDeviceId\<close>) that is missing or not a string replaced by
  \<open>N/A\<close>, each numeric field (\<open>humidity\<close>, \<open>temperature\<close>) that is missing or not
  a number replaced by 0, the numbers with two decimals: a missing humidity prints
  \<open>0.00\<close>, the humidity 55.5 prints \<open>55.50\<close>.
\<close>

theorem report_soft_defaults:
  assumes "devices_answer p b" and "json_Unmarshal p b = Inr r"
    and "index r ''body'' = JObject bd"
    and "index bd ''deviceList'' = JArray (JObject fd # rest)"
    and "index fd ''deviceId'' = JString d" and "status_answer p d b'"
    and "json_Unmarshal p b' = Inr sr" and "index sr ''body'' = JObject sb"
  shows "fst (main p) = Returned
         \<and> stdout (snd (main p))
             = stdout (after_status p b d b')
               @ ''Device ID: '' @ string_or_NA (index sb ''deviceId'') @ [CHR 0x0A]
               @ ''Device Type: '' @ string_or_NA (index sb ''deviceType'') @ [CHR 0x0A]
               @ ''Hub Device ID: '' @ string_or_NA (index sb ''hubDeviceId'') @ [CHR 0x0A]
               @ ''Humidity: '' @ Sprintf_2f (number_or_zero (index sb ''humidity''))
               @ [CHR 0x0A]
               @ ''Temperature: '' @ Sprintf_2f (number_or_zero (index sb ''temperature''))
               @ [CHR 0xC3, CHR 0x82, CHR 0xC2, CHR 0xB0] @ ''C'' @ [CHR 0x0A]
         \<and> (map_of sb ''humidity'' = None
              \<longrightarrow> Sprintf_2f (number_or_zero (index sb ''humidity'')) = ''0.00'')
         \<and> (map_of sb ''humidity'' = Some (JNumber (Float64 False 111 (- 1)))
              \<longrightarrow> Sprintf_2f (number_or_zero (index sb ''humidity'')) = ''55.50'')"
proof -
  have m: "main p = report (after_status p b d b') sr"
    by (rule main_status_decode [OF assms(1-7)])
  show ?thesis
    unfolding m report_object [OF assms(8)]
    by (simp add: index_def Sprintf_2f_zero Sprintf_2f_55_5)
qed

theorem report_soft_defaults_witness:
  "fst (main (sample_platform sample_env (serve devices_one status_full))) = Returned
   \<and> stdout (snd (main (sample_platform sample_env (serve devices_one status_full))))
       = stdout (after_status (sample_platform sample_env (serve devices_one status_full))
                   devices_one ''ABC123'' status_full)
         @ ''Device ID: ABC123'' @ [CHR 0x0A]
         @ ''Device Type: Meter'' @ [CHR 0x0A]
         @ ''Hub Device ID: N/A'' @ [CHR 0x0A]
         @ ''Humidity: 55.50'' @ [CHR 0x0A]
         @ ''Temperature: 0.00'' @ [CHR 0xC3, CHR 0x82, CHR 0xC2, CHR 0xB0] @ ''C'' @ [CHR 0x0A]
   \<and> fst (main (sample_platform sample_env (serve devices_one status_partial))) = Returned
   \<and> stdout (snd (main (sample_platform sample_env (serve devices_one status_partial))))
       = stdout (after_status (sample_platform sample_env (serve devices_one status_partial))
                   devices_one ''ABC123'' status_partial)
         @ ''Device ID: ABC123'' @ [CHR 0x0A]
         @ ''Device Type: N/A'' @ [CHR 0x0A]
         @ ''Hub Device ID: N/A'' @ [CHR 0x0A]
         @ ''Humidity: 0.00'' @ [CHR 0x0A]
         @ ''Temperature: 0.00'' @ [CHR 0xC3, CHR 0x82, CHR 0xC2, CHR 0xB0] @ ''C'' @ [CHR 0x0A]"
  using
    report_soft_defaults
      [where p = "sample_platform sample_env (serve devices_one status_full)"
         and b = devices_one
         and r = "[(''body'', JObject [(''deviceList'',
                      JArray [JObject [(''deviceId'', JString ''ABC123'')]])])]"
         and bd = "[(''deviceList'', JArray [JObject [(''deviceId'', JString ''ABC123'')]])]"
         and fd = "[(''deviceId'', JString ''ABC123'')]" and rest = "[]"
         and d = "''ABC123''" and b' = status_full
         and sr = "[(''body'', JObject [(''deviceId'', JString ''ABC123''),
                                        (''deviceType'', JString ''Meter''),
                                        (''humidity'', JNumber (Float64 False 111 (- 1)))])]"
         and sb = "[(''deviceId'', JString ''ABC123''), (''deviceType'', JString ''Meter''),
                    (''humidity'', JNumber (Float64 False 111 (- 1)))]"]
    report_soft_defaults
      [where p = "sample_platform sample_env (serve devices_one status_partial)"
         and b = devices_one
         and r = "[(''body'', JObject [(''deviceList'',
                      JArray [JObject [(''deviceId'', JString ''ABC123'')]])])]"
         and bd = "[(''deviceList'', JArray [JObject [(''deviceId'', JString ''ABC123'')]])]"
         and fd = "[(''deviceId'', JString ''ABC123'')]" and rest = "[]"
         and d = "''ABC123''" and b' = status_partial
         and sr = "[(''body'', JObject [(''deviceId'', JString ''ABC123''),
                                        (''temperature'', JString ''warm'')])]"
         and sb = "[(''deviceId'', JString ''ABC123''), (''temperature'', JString ''warm'')]"]
  by (simp add: sample_answers sample_decode decode_devices_one decode_status_full
      decode_status_partial index_def)

text \<open>
  C9. Where a mandatory JSON container is absent or of the wrong shape, the run stops with
  its cause: a devices response without an object \<open>body\<close>, or whose \<open>body\<close> has no
  list \<open>deviceList\<close>, ends the run in the panic of the failed assertion, which names the
  type found and the type expected, with nothing more printed and no second request; a
  status response without an object \<open>body\<close> ends it with the printed error line. Only
  the five leaf fields of the report get defaults.
\<close>

theorem malformed_container_aborts:
  "(devices_answer p b \<and> json_Unmarshal p b = Inr r \<and> \<not> is_object (index r ''body'')
      \<longrightarrow> main p = (Panicked (conversion_panic (index r ''body'') ''map[string]interface {}''),
                    after_devices p b))
   \<and> (devices_answer p b \<and> json_Unmarshal p b = Inr r \<and> index r ''body'' = JObject bd
        \<and> \<not> is_array (index bd ''deviceList'')
      \<longrightarrow> main p = (Panicked (conversion_panic (index bd ''deviceList'') ''[]interface {}''),
                    after_devices p b))
   \<and> (devices_answer p b \<and> json_Unmarshal p b = Inr r \<and> index r ''body'' = JObject bd
        \<and> index bd ''deviceList'' = JArray (JObject fd # rest)
        \<and> index fd ''deviceId'' = JString d \<and> status_answer p d b'
        \<and> json_Unmarshal p b' = Inr sr \<and> \<not> is_object (index sr ''body'')
      \<longrightarrow> main p = (Returned,
                    Println (after_status p b d b')
                      ''Error: response body is missing or not in expected format.''))"
proof (intro conjI impI)
  assume a: "devices_answer p b \<and> json_Unmarshal p b = Inr r \<and> \<not> is_object (index r ''body'')"
  then have m: "main p = devices_stage p
           \<lparr>stdout = [], sent = [with_headers apiURLDevices (the_headers p)],
            uuid_calls = 1, clock_calls = 1\<rparr> (the_headers p) (Some b)"
    using main_devices_answer [of p b] by simp
  from a have "assert_map (index r ''body'')
      = Inl (conversion_panic (index r ''body'') ''map[string]interface {}'')"
    by (cases "index r ''body''") simp_all
  with a show "main p = (Panicked (conversion_panic (index r ''body'')
                  ''map[string]interface {}''), after_devices p b)"
    by (simp add: m devices_stage_def Let_def string_of_def Printf_def after_devices_def)
next
  assume a: "devices_answer p b \<and> json_Unmarshal p b = Inr r \<and> index r ''body'' = JObject bd
        \<and> \<not> is_array (index bd ''deviceList'')"
  then have m: "main p = devices_stage p
           \<lparr>stdout = [], sent = [with_headers apiURLDevices (the_headers p)],
            uuid_calls = 1, clock_calls = 1\<rparr> (the_headers p) (Some b)"
    using main_devices_answer [of p b] by simp
  from a have "assert_slice (index bd ''deviceList'')
      = Inl (conversion_panic (index bd ''deviceList'') ''[]interface {}'')"
    by (cases "index bd ''deviceList''") simp_all
  with a show "main p = (Panicked (conversion_panic (index bd ''deviceList'')
                  ''[]interface {}''), after_devices p b)"
    by (simp add: m devices_stage_def Let_def string_of_def Printf_def after_devices_def)
next
  assume a: "devices_answer p b \<and> json_Unmarshal p b = Inr r \<and> index r ''body'' = JObject bd
        \<and> index bd ''deviceList'' = JArray (JObject fd # rest)
        \<and> index fd ''deviceId'' = JString d \<and> status_answer p d b'
        \<and> json_Unmarshal p b' = Inr sr \<and> \<not> is_object (index sr ''body'')"
  then have m: "main p = report (after_status p b d b') sr"
    using main_status_decode [of p b r bd fd rest d b' sr] by simp
  from a have "map_ok (index sr ''body'') = ([], False)"
    by (cases "index sr ''body''") simp_all
  then show "main p = (Returned, Println (after_status p b d b')
                 ''Error: response body is missing or not in expected format.'')"
    by (simp add: m report_def)
qed

theorem malformed_container_aborts_witness:
  "main (sample_platform sample_env (serve devices_no_body status_full))
     = (Panicked ''interface conversion: interface {} is nil, not map[string]interface {}'',
        after_devices (sample_platform sample_env (serve devices_no_body status_full))
          devices_no_body)
   \<and> main (sample_platform sample_env (serve devices_no_list status_full))
     = (Panicked ''interface conversion: interface {} is nil, not []interface {}'',
        after_devices (sample_platform sample_env (serve devices_no_list status_full))
          devices_no_list)
   \<and> main (sample_platform sample_env (serve devices_one status_no_body))
     = (Returned,
        Println (after_status (sample_platform sample_env (serve devices_one status_no_body))
                   devices_one ''ABC123'' status_no_body)
          ''Error: response body is missing or not in expected format.'')"
  using
    malformed_container_aborts
      [where p = "sample_platform sample_env (serve devices_no_body status_full)"
         and b = devices_no_body and r = "[(''message'', JString ''Unauthorized'')]"]
    malformed_container_aborts
      [where p = "sample_platform sample_env (serve devices_no_list status_full)"
         and b = devices_no_list and r = "[(''body'', JObject [])]" and bd = "[]"]
    malformed_container_aborts
      [where p = "sample_platform sample_env (serve devices_one status_no_body)"
         and b = devices_one
         and r = "[(''body'', JObject [(''deviceList'',
                      JArray [JObject [(''deviceId'', JString ''ABC123'')]])])]"
         and bd = "[(''deviceList'', JArray [JObject [(''deviceId'', JString ''ABC123'')]])]"
         and fd = "[(''deviceId'', JString ''ABC123'')]" and rest = "[]"
         and d = "''ABC123''" and b' = status_no_body
         and sr = "[(''message'', JString ''device offline'')]"]
  by (simp add: sample_answers sample_decode decode_devices_no_body decode_devices_no_list
      decode_devices_one decode_status_no_body index_def conversion_panic_def)

text \<open>
  C10. For every devices response whose \<open>body.deviceList\<close> is a non-empty list whose
  first element is not an object, or is an object without a string \<open>deviceId\<close>, the run
  ends in the panic of the unguarded assertion at the identifier extraction: no \<open>N/A\<close>
  is substituted and the program prints no diagnostic of its own, so that the output is the
  line with the raw devices body and one request was sent.
\<close>

theorem unguarded_device_id_panics:
  assumes "devices_answer p b" and "json_Unmarshal p b = Inr r"
    and "index r ''body'' = JObject bd" and "index bd ''deviceList'' = JArray (v # rest)"
  shows "(\<not> is_object v
            \<longrightarrow> main p = (Panicked (conversion_panic v ''map[string]interface {}''),
                          after_devices p b))
         \<and> (v = JObject fd \<and> \<not> is_string (index fd ''deviceId'')
            \<longrightarrow> main p = (Panicked (conversion_panic (index fd ''deviceId'') ''string''),
                          after_devices p b))
         \<and> stdout (after_devices p b) = ''Response from /devices: '' @ b @ [CHR 0x0A]
         \<and> length (sent (after_devices p b)) = 1"
proof -
  have m: "main p = status_stage p (after_devices p b) (the_headers p) (v # rest)"
    using main_device_list [OF assms] by simp
  have 1: "main p = (Panicked (conversion_panic v ''map[string]interface {}''),
                     after_devices p b)" if "\<not> is_object v"
    using that unfolding m status_stage_def by (cases v) simp_all
  have 2: "main p = (Panicked (conversion_panic (index fd ''deviceId'') ''string''),
                     after_devices p b)"
    if "v = JObject fd" and "\<not> is_string (index fd ''deviceId'')"
    using that unfolding m status_stage_def by (cases "index fd ''deviceId''") simp_all
  show ?thesis
    using 1 2 by (simp add: after_devices_def)
qed

theorem unguarded_device_id_panics_witness:
  "main (sample_platform sample_env (serve devices_bad_first status_full))
     = (Panicked ''interface conversion: interface {} is string, not map[string]interface {}'',
        after_devices (sample_platform sample_env (serve devices_bad_first status_full))
          devices_bad_first)
   \<and> main (sample_platform sample_env (serve devices_bad_id status_full))
     = (Panicked ''interface conversion: interface {} is float64, not string'',
        after_devices (sample_platform sample_env (serve devices_bad_id status_full))
          devices_bad_id)"
  using
    unguarded_device_id_panics
      [where p = "sample_platform sample_env (serve devices_bad_first status_full)"
         and b = devices_bad_first
         and r = "[(''body'', JObject [(''deviceList'', JArray [JString ''ABC123''])])]"
         and bd = "[(''deviceList'', JArray [JString ''ABC123''])]"
         and v = "JString ''ABC123''" and rest = "[]"]
    unguarded_device_id_panics
      [where p = "sample_platform sample_env (serve devices_bad_id status_full)"
         and b = devices_bad_id
         and r = "[(''body'', JObject [(''deviceList'',
                      JArray [JObject [(''deviceId'', JNumber (Float64 False 7 0))]])])]"
         and bd = "[(''deviceList'',
                      JArray [JObject [(''deviceId'', JNumber (Float64 False 7 0))]])]"
         and v = "JObject [(''deviceId'', JNumber (Float64 False 7 0))]" and rest = "[]"
         and fd = "[(''deviceId'', JNumber (Float64 False 7 0))]"]
  by (simp add: sample_answers sample_decode decode_devices_bad_first decode_devices_bad_id
      index_def conversion_panic_def)

end
